theory Spec2Isabelle
  imports Main "HOL-Library.Sublist"
begin

section \<open>The connectivity probe \<^verbatim>\<open>check_db.py\<close>\<close>

text \<open>
  The script, with its two non-ASCII messages abbreviated (their bytes are given below):
  \<^verbatim>\<open>
   5  load_dotenv()
   7  try:
   8      conn = psycopg2.connect(os.getenv("DATABASE_URL"))
   9      print("<check mark> Neon DB <connection succeeded>!")
  11      cur = conn.cursor()
  12      cur.execute("SELECT version()")
  13      version = cur.fetchone()
  14      print(f"PostgreSQL version: {version[0]}")
  16      cur.close()
  17      conn.close()
  19  except Exception as e:
  20      print(f"<cross mark> <connection failed>: {e}")
  \<close>
  Every call that leaves the script (\<open>load_dotenv\<close>, \<open>os.getenv\<close>, \<open>connect\<close>,
  \<open>cursor\<close>, \<open>execute\<close>, \<open>fetchone\<close>, the two \<open>close\<close> calls) is answered by the
  surroundings of the process: it returns a value or raises. The model takes these
  answers as a record and computes what the script does with them: the sequence of
  calls and prints it performs, and how the process ends.
\<close>

subsection \<open>Exceptions and the answers of the surroundings\<close>

text \<open>
  An exception object, by the name of its class and its description \<open>str(e)\<close>. The
  library calls of the script raise instances of \<open>Exception\<close> (\<open>psycopg2.Error\<close> and its
  subclasses, \<open>TypeError\<close>, \<open>IndexError\<close>, \<open>OSError\<close>, \<open>UnicodeDecodeError\<close>), which is
  what the clause \<open>except Exception\<close> of line 19 catches. \<open>KeyboardInterrupt\<close> and
  \<open>SystemExit\<close> come from signals and from \<open>sys.exit\<close>, and neither is a step of this
  script.
\<close>

datatype exn = Exn (cls: string) (descr: string)

text \<open>
  A call raises (\<open>Inl e\<close>) or returns (\<open>Inr v\<close>). A row is the tuple of its text fields;
  \<open>fetchone\<close> returns \<open>None\<close> when the result set has no row.
\<close>

record env =
  load_dotenv :: "exn + bool"
  getenv :: "string \<Rightarrow> string option"
  connect :: "string option \<Rightarrow> exn + unit"
  cursor :: "exn + unit"
  execute :: "string \<Rightarrow> exn + unit"
  fetchone :: "exn + string list option"
  cur_close :: "exn + unit"
  conn_close :: "exn + unit"

subsection \<open>What a run does\<close>

text \<open>
  The calls and prints of a run, in the order in which they happen. \<open>Print s\<close> is the
  call \<open>print(s)\<close>, which writes the message \<open>s\<close> and a newline to standard output; it
  is taken to succeed. \<open>Connect dsn\<close> is the call of \<open>psycopg2.connect\<close> with the
  connection string \<open>dsn\<close>, and a call is recorded whether it returns or raises.
\<close>

datatype event =
    LoadDotenv
  | Getenv string
  | Connect "string option"
  | Print string
  | Cursor
  | Execute string
  | Fetchone
  | CurClose
  | ConnClose

text \<open>
  How a run ends: the \<open>try\<close> body ran to its end, the \<open>except\<close> clause caught an
  exception and ran to its end, or an exception left the script uncaught.
\<close>

datatype outcome = Completed | Handled exn | Unhandled exn

text \<open>
  The script never calls \<open>sys.exit\<close>, so the status of the process is the interpreter's:
  0 when the module body runs to its end, 1 when an exception is not caught.
\<close>

fun exit_status :: "outcome \<Rightarrow> nat" where
  "exit_status Completed = 0"
| "exit_status (Handled e) = 0"
| "exit_status (Unhandled e) = 1"

subsection \<open>The messages\<close>

text \<open>
  Strings are the UTF-8 bytes of the source file. Line 9 prints U+2705, \<open>Neon DB\<close> and
  four Hangul syllables; line 20 starts with U+274C.
\<close>

definition success_marker :: string where
  "success_marker = [CHR 0xE2, CHR 0x9C, CHR 0x85]"

definition success_msg :: string where
  "success_msg = success_marker @ '' Neon DB ''
     @ [CHR 0xEC, CHR 0x97, CHR 0xB0, CHR 0xEA, CHR 0xB2, CHR 0xB0] @ '' ''
     @ [CHR 0xEC, CHR 0x84, CHR 0xB1, CHR 0xEA, CHR 0xB3, CHR 0xB5] @ ''!''"

definition failure_marker :: string where
  "failure_marker = [CHR 0xE2, CHR 0x9D, CHR 0x8C]"

definition failure_prefix :: string where
  "failure_prefix = failure_marker @ '' ''
     @ [CHR 0xEC, CHR 0x97, CHR 0xB0, CHR 0xEA, CHR 0xB2, CHR 0xB0] @ '' ''
     @ [CHR 0xEC, CHR 0x8B, CHR 0xA4, CHR 0xED, CHR 0x8C, CHR 0xA8] @ '': ''"

text \<open>Line 20: the f-string puts \<open>str(e)\<close> after the fixed prefix.\<close>

definition failure_msg :: "exn \<Rightarrow> string" where
  "failure_msg e = failure_prefix @ descr e"

text \<open>Line 14: the f-string puts the field after the fixed prefix.\<close>

definition version_line :: "string \<Rightarrow> string" where
  "version_line v = ''PostgreSQL version: '' @ v"

text \<open>
  \<open>version[0]\<close> of line 14: \<open>None\<close> is not subscriptable, an empty tuple has no index 0.
\<close>

definition not_subscriptable :: exn where
  "not_subscriptable =
     Exn ''TypeError''
       ([CHR 0x27] @ ''NoneType'' @ [CHR 0x27] @ '' object is not subscriptable'')"

definition index_out_of_range :: exn where
  "index_out_of_range = Exn ''IndexError'' ''tuple index out of range''"

fun subscript0 :: "string list option \<Rightarrow> exn + string" where
  "subscript0 None = Inl not_subscriptable"
| "subscript0 (Some []) = Inl index_out_of_range"
| "subscript0 (Some (v # rest)) = Inr v"

subsection \<open>The script\<close>

text \<open>
  Lines 8 to 17, the body of the \<open>try\<close>: the events it performs and the exception that
  ended it, if one did. An exception raised while line 14 evaluates its argument leaves
  before the \<open>print\<close>.
\<close>

definition try_body :: "env \<Rightarrow> event list \<times> exn option" where
  "try_body env =
    (let dsn = getenv env ''DATABASE_URL'';
         t1 = [Getenv ''DATABASE_URL'', Connect dsn] in
     case connect env dsn of
       Inl e \<Rightarrow> (t1, Some e)
     | Inr conn \<Rightarrow>
    (let t2 = t1 @ [Print success_msg, Cursor] in
     case cursor env of
       Inl e \<Rightarrow> (t2, Some e)
     | Inr cur \<Rightarrow>
    (let t3 = t2 @ [Execute ''SELECT version()''] in
     case execute env ''SELECT version()'' of
       Inl e \<Rightarrow> (t3, Some e)
     | Inr u \<Rightarrow>
    (let t4 = t3 @ [Fetchone] in
     case fetchone env of
       Inl e \<Rightarrow> (t4, Some e)
     | Inr version \<Rightarrow>
    (case subscript0 version of
       Inl e \<Rightarrow> (t4, Some e)
     | Inr v \<Rightarrow>
    (let t5 = t4 @ [Print (version_line v), CurClose] in
     case cur_close env of
       Inl e \<Rightarrow> (t5, Some e)
     | Inr u1 \<Rightarrow>
    (let t6 = t5 @ [ConnClose] in
     case conn_close env of
       Inl e \<Rightarrow> (t6, Some e)
     | Inr u2 \<Rightarrow> (t6, None))))))))"

text \<open>Lines 19 and 20, the \<open>except\<close> clause: one print, and nothing is raised again.\<close>

definition handler :: "exn \<Rightarrow> event list" where
  "handler e = [Print (failure_msg e)]"

text \<open>
  Lines 7 to 20, the \<open>try\<close> statement: one connect, query, report and disconnect cycle,
  which the specification's glossary calls a probe.
\<close>

definition probe :: "env \<Rightarrow> event list \<times> outcome" where
  "probe env =
    (case try_body env of
       (t, None) \<Rightarrow> (t, Completed)
     | (t, Some e) \<Rightarrow> (t @ handler e, Handled e))"

text \<open>
  Lines 5 to 20, the module body: \<open>load_dotenv()\<close> is called before the \<open>try\<close>
  statement is entered, so an exception it raises is not caught.
\<close>

definition check_db :: "env \<Rightarrow> event list \<times> outcome" where
  "check_db env =
    (case load_dotenv env of
       Inl e \<Rightarrow> ([LoadDotenv], Unhandled e)
     | Inr loaded \<Rightarrow> (LoadDotenv # fst (probe env), snd (probe env)))"

subsection \<open>Reading a run\<close>

text \<open>The messages written to standard output, one for each \<open>print\<close>.\<close>

fun printed :: "event list \<Rightarrow> string list" where
  "printed [] = []"
| "printed (Print s # t) = s # printed t"
| "printed (ev # t) = printed t"



fun executed :: "event list \<Rightarrow> string list" where
  "executed [] = []"
| "executed (Execute q # t) = q # executed t"
| "executed (ev # t) = executed t"


definition has_success_marker :: "string \<Rightarrow> bool" where
  "has_success_marker l = (take 3 l = success_marker)"

subsection \<open>The answers a run consults\<close>



subsection \<open>Some surroundings\<close>

text \<open>A reachable server that answers every call.\<close>

definition live_env :: env where
  "live_env = \<lparr>
     load_dotenv = Inr True,
     getenv = (\<lambda>k. if k = ''DATABASE_URL'' then Some ''postgresql://u:p@localhost/db'' else None),
     connect = (\<lambda>dsn. Inr ()),
     cursor = Inr (),
     execute = (\<lambda>q. Inr ()),
     fetchone = Inr (Some [''PostgreSQL 16.2 on x86_64-pc-linux-gnu'']),
     cur_close = Inr (),
     conn_close = Inr () \<rparr>"

text \<open>The same server, on which the statement fails after the connection has opened.\<close>

definition query_error :: exn where
  "query_error = Exn ''OperationalError'' ''server closed the connection unexpectedly''"

definition query_fails_env :: env where
  "query_fails_env = live_env \<lparr> execute := (\<lambda>q. Inl query_error) \<rparr>"

text \<open>The same server, reached while the result set has no row.\<close>

definition no_row_env :: env where
  "no_row_env = live_env \<lparr> fetchone := Inr None \<rparr>"

text \<open>A server that refuses the connection.\<close>

definition refused_error :: exn where
  "refused_error = Exn ''OperationalError'' ''connection refused''"

definition unreachable_env :: env where
  "unreachable_env = live_env \<lparr> connect := (\<lambda>dsn. Inl refused_error) \<rparr>"

text \<open>No \<open>DATABASE_URL\<close> in the environment, and a driver that rejects the missing string.\<close>

definition missing_dsn_error :: exn where
  "missing_dsn_error = Exn ''TypeError'' ''missing dsn and no parameters''"

definition no_url_env :: env where
  "no_url_env = live_env \<lparr> getenv := (\<lambda>k. None),
     connect := (\<lambda>dsn. case dsn of None \<Rightarrow> Inl missing_dsn_error | Some s \<Rightarrow> Inr ()) \<rparr>"




text \<open>A cursor whose \<open>close\<close> raises, after the version has been reported.\<close>

definition close_error :: exn where
  "close_error = Exn ''InterfaceError'' ''connection already closed''"

definition close_fails_env :: env where
  "close_fails_env = live_env \<lparr> cur_close := Inl close_error \<rparr>"

section \<open>Properties\<close>

subsection \<open>The run on each path\<close>

lemma probe_connect_fails:
  assumes "connect env (getenv env ''DATABASE_URL'') = Inl e"
  shows "probe env =
    ([Getenv ''DATABASE_URL'', Connect (getenv env ''DATABASE_URL''), Print (failure_msg e)],
     Handled e)"
  using assms by (simp add: probe_def try_body_def handler_def)

lemma probe_cursor_fails:
  assumes "connect env (getenv env ''DATABASE_URL'') = Inr c" and "cursor env = Inl e"
  shows "probe env =
    ([Getenv ''DATABASE_URL'', Connect (getenv env ''DATABASE_URL''), Print success_msg,
      Cursor, Print (failure_msg e)], Handled e)"
  using assms by (simp add: probe_def try_body_def handler_def)

lemma probe_execute_fails:
  assumes "connect env (getenv env ''DATABASE_URL'') = Inr c" and "cursor env = Inr k"
    and "execute env ''SELECT version()'' = Inl e"
  shows "probe env =
    ([Getenv ''DATABASE_URL'', Connect (getenv env ''DATABASE_URL''), Print success_msg,
      Cursor, Execute ''SELECT version()'', Print (failure_msg e)], Handled e)"
  using assms by (simp add: probe_def try_body_def handler_def)

lemma probe_fetchone_fails:
  assumes "connect env (getenv env ''DATABASE_URL'') = Inr c" and "cursor env = Inr k"
    and "execute env ''SELECT version()'' = Inr u" and "fetchone env = Inl e"
  shows "probe env =
    ([Getenv ''DATABASE_URL'', Connect (getenv env ''DATABASE_URL''), Print success_msg,
      Cursor, Execute ''SELECT version()'', Fetchone, Print (failure_msg e)], Handled e)"
  using assms by (simp add: probe_def try_body_def handler_def)

lemma probe_extract_fails:
  assumes "connect env (getenv env ''DATABASE_URL'') = Inr c" and "cursor env = Inr k"
    and "execute env ''SELECT version()'' = Inr u" and "fetchone env = Inr r"
    and "subscript0 r = Inl e"
  shows "probe env =
    ([Getenv ''DATABASE_URL'', Connect (getenv env ''DATABASE_URL''), Print success_msg,
      Cursor, Execute ''SELECT version()'', Fetchone, Print (failure_msg e)], Handled e)"
  using assms by (simp add: probe_def try_body_def handler_def)

lemma probe_cur_close_fails:
  assumes "connect env (getenv env ''DATABASE_URL'') = Inr c" and "cursor env = Inr k"
    and "execute env ''SELECT version()'' = Inr u" and "fetchone env = Inr r"
    and "subscript0 r = Inr v" and "cur_close env = Inl e"
  shows "probe env =
    ([Getenv ''DATABASE_URL'', Connect (getenv env ''DATABASE_URL''), Print success_msg,
      Cursor, Execute ''SELECT version()'', Fetchone, Print (version_line v), CurClose,
      Print (failure_msg e)], Handled e)"
  using assms by (simp add: probe_def try_body_def handler_def)

lemma probe_conn_close_fails:
  assumes "connect env (getenv env ''DATABASE_URL'') = Inr c" and "cursor env = Inr k"
    and "execute env ''SELECT version()'' = Inr u" and "fetchone env = Inr r"
    and "subscript0 r = Inr v" and "cur_close env = Inr u1" and "conn_close env = Inl e"
  shows "probe env =
    ([Getenv ''DATABASE_URL'', Connect (getenv env ''DATABASE_URL''), Print success_msg,
      Cursor, Execute ''SELECT version()'', Fetchone, Print (version_line v), CurClose,
      ConnClose, Print (failure_msg e)], Handled e)"
  using assms by (simp add: probe_def try_body_def handler_def)

lemma probe_completes:
  assumes "connect env (getenv env ''DATABASE_URL'') = Inr c" and "cursor env = Inr k"
    and "execute env ''SELECT version()'' = Inr u" and "fetchone env = Inr r"
    and "subscript0 r = Inr v" and "cur_close env = Inr u1" and "conn_close env = Inr u2"
  shows "probe env =
    ([Getenv ''DATABASE_URL'', Connect (getenv env ''DATABASE_URL''), Print success_msg,
      Cursor, Execute ''SELECT version()'', Fetchone, Print (version_line v), CurClose,
      ConnClose], Completed)"
  using assms by (simp add: probe_def try_body_def handler_def)

text \<open>The eight paths are all the paths.\<close>

lemma probe_paths:
  obtains
    (connect) e where "connect env (getenv env ''DATABASE_URL'') = Inl e"
  | (cursor) e where "connect env (getenv env ''DATABASE_URL'') = Inr ()" "cursor env = Inl e"
  | (execute) e where "connect env (getenv env ''DATABASE_URL'') = Inr ()" "cursor env = Inr ()"
      "execute env ''SELECT version()'' = Inl e"
  | (fetchone) e where "connect env (getenv env ''DATABASE_URL'') = Inr ()" "cursor env = Inr ()"
      "execute env ''SELECT version()'' = Inr ()" "fetchone env = Inl e"
  | (subscript) r e where "connect env (getenv env ''DATABASE_URL'') = Inr ()" "cursor env = Inr ()"
      "execute env ''SELECT version()'' = Inr ()" "fetchone env = Inr r" "subscript0 r = Inl e"
  | (cur_close) r v e where "connect env (getenv env ''DATABASE_URL'') = Inr ()" "cursor env = Inr ()"
      "execute env ''SELECT version()'' = Inr ()" "fetchone env = Inr r" "subscript0 r = Inr v"
      "cur_close env = Inl e"
  | (conn_close) r v e where "connect env (getenv env ''DATABASE_URL'') = Inr ()" "cursor env = Inr ()"
      "execute env ''SELECT version()'' = Inr ()" "fetchone env = Inr r" "subscript0 r = Inr v"
      "cur_close env = Inr ()" "conn_close env = Inl e"
  | (completed) r v where "connect env (getenv env ''DATABASE_URL'') = Inr ()" "cursor env = Inr ()"
      "execute env ''SELECT version()'' = Inr ()" "fetchone env = Inr r" "subscript0 r = Inr v"
      "cur_close env = Inr ()" "conn_close env = Inr ()"
proof (cases "connect env (getenv env ''DATABASE_URL'')")
  case (Inl e) then show ?thesis using connect by blast
next
  case c: (Inr a)
  show ?thesis
  proof (cases "cursor env")
    case (Inl e) then show ?thesis using c cursor by simp
  next
    case k: (Inr b)
    show ?thesis
    proof (cases "execute env ''SELECT version()''")
      case (Inl e) then show ?thesis using c k execute by simp
    next
      case x: (Inr u)
      show ?thesis
      proof (cases "fetchone env")
        case (Inl e) then show ?thesis using c k x fetchone by simp
      next
        case f: (Inr r)
        show ?thesis
        proof (cases "subscript0 r")
          case (Inl e) then show ?thesis using c k x f subscript by simp
        next
          case s: (Inr v)
          show ?thesis
          proof (cases "cur_close env")
            case (Inl e) then show ?thesis using c k x f s cur_close by simp
          next
            case cc: (Inr u1)
            show ?thesis
            proof (cases "conn_close env")
              case (Inl e) then show ?thesis using c k x f s cc conn_close by simp
            next
              case (Inr u2) then show ?thesis using c k x f s cc completed by simp
            qed
          qed
        qed
      qed
    qed
  qed
qed

lemmas probe_path_simps =
  probe_connect_fails probe_cursor_fails probe_execute_fails probe_fetchone_fails
  probe_extract_fails probe_cur_close_fails probe_conn_close_fails probe_completes

text \<open>The module body adds the call of \<open>load_dotenv\<close> in front, or stops there.\<close>

lemma check_db_loaded:
  assumes "load_dotenv env = Inr b"
  shows "check_db env = (LoadDotenv # fst (probe env), snd (probe env))"
  using assms by (simp add: check_db_def)



lemma success_msg_marked: "has_success_marker success_msg"
  by (simp add: has_success_marker_def success_msg_def success_marker_def)



lemma failure_msg_not_success: "\<not> has_success_marker (failure_msg e)"
  by (simp add: has_success_marker_def failure_msg_def failure_prefix_def failure_marker_def
      success_marker_def)


subsection \<open>Release of the connection and the cursor\<close>

text \<open>
  The two \<open>close\<close> calls are the last statements of the \<open>try\<close> body; the script
  has no \<open>finally\<close> clause and no \<open>with\<close> block. A run that completes has closed
  the cursor and the connection once each. A run that ends in the \<open>except\<close> clause
  with both handles still closable has closed neither.
\<close>

lemma completed_run_releases_once:
  assumes "snd (probe env) = Completed"
  shows "count_list (fst (probe env)) ConnClose = 1 \<and> count_list (fst (probe env)) CurClose = 1"
  using assms
  by (cases env rule: probe_paths)
     (simp_all add: probe_connect_fails probe_cursor_fails probe_execute_fails
        probe_fetchone_fails probe_extract_fails probe_cur_close_fails probe_conn_close_fails
        probe_completes)

lemma no_release_after_a_failure:
  assumes "snd (probe env) = Handled e" and "cur_close env = Inr ()"  and "conn_close env = Inr ()"
  shows "count_list (fst (probe env)) ConnClose = 0 \<and> count_list (fst (probe env)) CurClose = 0"
  using assms
  by (cases env rule: probe_paths)
     (simp_all add: probe_connect_fails probe_cursor_fails probe_execute_fails
        probe_fetchone_fails probe_extract_fails probe_cur_close_fails probe_conn_close_fails
        probe_completes)

text \<open>
  C1 (the connection and the cursor, once acquired, are each released exactly once on
  the success path and on every failure path). On the path where the statement fails
  the script does not do this: the connection has been opened, the run ends in the
  \<open>except\<close> clause, and neither \<open>close\<close> call has been made.
\<close>

theorem leak_when_query_fails:
  "connect query_fails_env (getenv query_fails_env ''DATABASE_URL'') = Inr ()
 \<and> check_db query_fails_env =
     ([LoadDotenv, Getenv ''DATABASE_URL'', Connect (Some ''postgresql://u:p@localhost/db''),
       Print success_msg, Cursor, Execute ''SELECT version()'', Print (failure_msg query_error)],
      Handled query_error)
 \<and> count_list (fst (check_db query_fails_env)) ConnClose = 0
 \<and> count_list (fst (check_db query_fails_env)) CurClose = 0"
  by (simp add: query_fails_env_def live_env_def check_db_def probe_def try_body_def handler_def)

subsection \<open>The shapes of the output\<close>



text \<open>The fourth shape is the run whose \<open>cur.close()\<close> raises.\<close>

lemma version_then_failure_when_close_fails:
  "printed (fst (probe close_fails_env)) =
     [success_msg, version_line ''PostgreSQL 16.2 on x86_64-pc-linux-gnu'',
      failure_msg close_error]"
  by (simp add: close_fails_env_def live_env_def probe_def try_body_def handler_def)

subsection \<open>What the \<open>except\<close> clause covers\<close>




subsection \<open>The success report\<close>

text \<open>
  C4: when the connection opens, the cursor is created, the statement succeeds and
  \<open>fetchone\<close> returns a row whose first field is \<open>v\<close>, the run starts with the
  connect, the success message, the one statement \<open>SELECT version()\<close>, the one fetch and
  the version message. The only statement executed is that one, one row is fetched, and the
  output starts with the success message followed by a message that begins with
  \<open>PostgreSQL\<close> and ends with \<open>v\<close>.
\<close>

theorem version_report_on_success:
  assumes "connect env (getenv env ''DATABASE_URL'') = Inr ()"
    and "cursor env = Inr ()"
    and "execute env ''SELECT version()'' = Inr ()"
    and "fetchone env = Inr (Some (v # rest))"
  shows "take 7 (fst (probe env)) =
      [Getenv ''DATABASE_URL'', Connect (getenv env ''DATABASE_URL''), Print success_msg,
       Cursor, Execute ''SELECT version()'', Fetchone, Print (''PostgreSQL version: '' @ v)]
    \<and> executed (fst (probe env)) = [''SELECT version()'']
    \<and> count_list (fst (probe env)) Fetchone = 1
    \<and> take 2 (printed (fst (probe env))) = [success_msg, ''PostgreSQL version: '' @ v]
    \<and> has_success_marker success_msg
    \<and> prefix ''PostgreSQL'' (''PostgreSQL version: '' @ v)
    \<and> suffix v (''PostgreSQL version: '' @ v)"
proof -
  have sub: "subscript0 (Some (v # rest)) = Inr v" by simp
  have fixed: "has_success_marker success_msg \<and> prefix ''PostgreSQL'' (''PostgreSQL version: '' @ v)
    \<and> suffix v (''PostgreSQL version: '' @ v)"
    by (simp add: success_msg_marked suffix_def)
  show ?thesis
  proof (cases "cur_close env")
    case (Inl e)
    show ?thesis
      using fixed
      by (simp add: probe_cur_close_fails [OF assms sub Inl] version_line_def)
  next
    case cc: (Inr u1)
    show ?thesis
    proof (cases "conn_close env")
      case (Inl e)
      show ?thesis
        using fixed
        by (simp add: probe_conn_close_fails [OF assms sub cc Inl] version_line_def)
    next
      case (Inr u2)
      show ?thesis
        using fixed
        by (simp add: probe_completes [OF assms sub cc Inr] version_line_def)
    qed
  qed
qed

theorem version_report_on_success_witness:
  "connect live_env (getenv live_env ''DATABASE_URL'') = Inr ()
 \<and> cursor live_env = Inr ()
 \<and> execute live_env ''SELECT version()'' = Inr ()
 \<and> fetchone live_env = Inr (Some (''PostgreSQL 16.2 on x86_64-pc-linux-gnu'' # []))
 \<and> executed (fst (probe live_env)) = [''SELECT version()'']
 \<and> take 2 (printed (fst (probe live_env))) =
     [success_msg, ''PostgreSQL version: '' @ ''PostgreSQL 16.2 on x86_64-pc-linux-gnu'']"
proof -
  have c: "connect live_env (getenv live_env ''DATABASE_URL'') = Inr ()"
    and k: "cursor live_env = Inr ()"
    and x: "execute live_env ''SELECT version()'' = Inr ()"
    and f: "fetchone live_env = Inr (Some (''PostgreSQL 16.2 on x86_64-pc-linux-gnu'' # []))"
    by (simp_all add: live_env_def)
  show ?thesis using c k x f version_report_on_success [OF c k x f] by simp
qed

subsection \<open>The failure path\<close>



subsection \<open>Two runs\<close>







subsection \<open>One attempt, and nothing but calls and prints\<close>



subsection \<open>No row\<close>

text \<open>
  C8: when the statement succeeds and \<open>fetchone\<close> returns \<open>None\<close>, the subscript of
  line 14 raises a \<open>TypeError\<close> before the version message is printed, the \<open>except\<close>
  clause prints the failure message with its description, and the run ends normally: the
  exception does not leave the script.
\<close>

theorem missing_row_is_reported:
  assumes "connect env (getenv env ''DATABASE_URL'') = Inr ()"
    and "cursor env = Inr ()"
    and "execute env ''SELECT version()'' = Inr ()"
    and "fetchone env = Inr None"
  shows "probe env =
      ([Getenv ''DATABASE_URL'', Connect (getenv env ''DATABASE_URL''), Print success_msg,
        Cursor, Execute ''SELECT version()'', Fetchone,
        Print (failure_prefix @ [CHR 0x27] @ ''NoneType'' @ [CHR 0x27]
                 @ '' object is not subscriptable'')],
       Handled not_subscriptable)
    \<and> cls not_subscriptable = ''TypeError''
    \<and> exit_status (snd (probe env)) = 0
    \<and> (\<forall>b. load_dotenv env = Inr b \<longrightarrow>
          snd (check_db env) = Handled not_subscriptable
        \<and> exit_status (snd (check_db env)) = 0)"
proof -
  have sub: "subscript0 None = Inl not_subscriptable" by simp
  have p: "probe env =
      ([Getenv ''DATABASE_URL'', Connect (getenv env ''DATABASE_URL''), Print success_msg,
        Cursor, Execute ''SELECT version()'', Fetchone, Print (failure_msg not_subscriptable)],
       Handled not_subscriptable)"
    by (rule probe_extract_fails [OF assms sub])
  have m: "failure_msg not_subscriptable =
      failure_prefix @ [CHR 0x27] @ ''NoneType'' @ [CHR 0x27] @ '' object is not subscriptable''"
    by (simp add: failure_msg_def not_subscriptable_def)
  show ?thesis using p m by (simp add: check_db_loaded not_subscriptable_def)
qed

theorem missing_row_is_reported_witness:
  "connect no_row_env (getenv no_row_env ''DATABASE_URL'') = Inr ()
 \<and> cursor no_row_env = Inr ()
 \<and> execute no_row_env ''SELECT version()'' = Inr ()
 \<and> fetchone no_row_env = Inr None
 \<and> load_dotenv no_row_env = Inr True
 \<and> snd (check_db no_row_env) = Handled not_subscriptable
 \<and> printed (fst (probe no_row_env)) = [success_msg, failure_msg not_subscriptable]"
proof -
  have c: "connect no_row_env (getenv no_row_env ''DATABASE_URL'') = Inr ()"
    and k: "cursor no_row_env = Inr ()"
    and x: "execute no_row_env ''SELECT version()'' = Inr ()"
    and f: "fetchone no_row_env = Inr None"
    and l: "load_dotenv no_row_env = Inr True"
    by (simp_all add: no_row_env_def live_env_def)
  have m: "failure_msg not_subscriptable =
      failure_prefix @ [CHR 0x27] @ ''NoneType'' @ [CHR 0x27] @ '' object is not subscriptable''"
    by (simp add: failure_msg_def not_subscriptable_def)
  show ?thesis using c k x f l m missing_row_is_reported [OF c k x f] by auto
qed

subsection \<open>No connection string\<close>

text \<open>
  C9: when \<open>DATABASE_URL\<close> is not set, the first two things a probe does are the
  lookup and the call \<open>connect(None)\<close>, with no check in between. If that call raises,
  the whole run is these two calls and the failure message, and its output is the output of
  any probe whose \<open>connect\<close> raises the same exception with a connection string given. If
  that call returns, nothing is reported and the success message is printed.
\<close>

theorem missing_url_reaches_connect:
  assumes "getenv env ''DATABASE_URL'' = None"
  shows "take 2 (fst (probe env)) = [Getenv ''DATABASE_URL'', Connect None]
     \<and> (\<forall>e. connect env None = Inl e \<longrightarrow>
           probe env =
             ([Getenv ''DATABASE_URL'', Connect None, Print (failure_msg e)], Handled e)
         \<and> (\<forall>other. connect other (getenv other ''DATABASE_URL'') = Inl e \<longrightarrow>
               printed (fst (probe other)) = printed (fst (probe env))))
     \<and> (connect env None = Inr () \<longrightarrow> take 1 (printed (fst (probe env))) = [success_msg])"
proof -
  have a: "take 2 (fst (probe env)) = [Getenv ''DATABASE_URL'', Connect None]"
    using assms by (cases env rule: probe_paths) (simp_all add: probe_path_simps)
  have b: "\<forall>e. connect env None = Inl e \<longrightarrow>
           probe env =
             ([Getenv ''DATABASE_URL'', Connect None, Print (failure_msg e)], Handled e)
         \<and> (\<forall>other. connect other (getenv other ''DATABASE_URL'') = Inl e \<longrightarrow>
               printed (fst (probe other)) = printed (fst (probe env)))"
    using assms by (simp add: probe_connect_fails)
  have c: "connect env None = Inr () \<longrightarrow> take 1 (printed (fst (probe env))) = [success_msg]"
    using assms by (cases env rule: probe_paths) (simp_all add: probe_path_simps)
  show ?thesis using a b c by blast
qed

theorem missing_url_reaches_connect_witness:
  "getenv no_url_env ''DATABASE_URL'' = None
 \<and> connect no_url_env None = Inl missing_dsn_error
 \<and> probe no_url_env =
     ([Getenv ''DATABASE_URL'', Connect None, Print (failure_msg missing_dsn_error)],
      Handled missing_dsn_error)
 \<and> connect (unreachable_env \<lparr> connect := (\<lambda>dsn. Inl missing_dsn_error) \<rparr>)
      (getenv (unreachable_env \<lparr> connect := (\<lambda>dsn. Inl missing_dsn_error) \<rparr>) ''DATABASE_URL'')
     = Inl missing_dsn_error
 \<and> printed (fst (probe (unreachable_env \<lparr> connect := (\<lambda>dsn. Inl missing_dsn_error) \<rparr>)))
     = printed (fst (probe no_url_env))"
proof -
  have h: "getenv no_url_env ''DATABASE_URL'' = None"
    and e: "connect no_url_env None = Inl missing_dsn_error"
    by (simp_all add: no_url_env_def live_env_def)
  have o: "connect (unreachable_env \<lparr> connect := (\<lambda>dsn. Inl missing_dsn_error) \<rparr>)
      (getenv (unreachable_env \<lparr> connect := (\<lambda>dsn. Inl missing_dsn_error) \<rparr>) ''DATABASE_URL'')
     = Inl missing_dsn_error"
    by simp
  show ?thesis using h e o missing_url_reaches_connect [OF h] by blast
qed

subsection \<open>The success message comes first\<close>



end
